theory Spec2Isabelle
  imports Complex_Main
begin

section \<open>Python values and exceptions\<close>

text \<open>
  The service is Python glue code around three external libraries (Flask, NumPy and
  scikit-learn). Exceptions are values: every operation that can raise returns
  \<open>exn + 'a\<close>, with \<open>Inl\<close> carrying the exception. The type \<open>exn\<close> stands for
  instances of Python's \<open>Exception\<close> class, the ones an \<open>except Exception\<close> clause
  handles; an exception is given by its class and by the text \<open>str(e)\<close> returns.
\<close>

datatype exc_class =
    KeyError | TypeError | ValueError | IndexError | NameError | AttributeError
  | ModuleNotFoundError | FileNotFoundError | PermissionError | IsADirectoryError
  | OtherError string

datatype exn = Exn (exc_type: exc_class) (str: string)

definition bindE :: "'e + 'a \<Rightarrow> ('a \<Rightarrow> 'e + 'b) \<Rightarrow> 'e + 'b" where
  "bindE m f = (case m of Inl e \<Rightarrow> Inl e | Inr x \<Rightarrow> f x)"

text \<open>
  The values a JSON document decodes to. A finite float is represented by the rational
  number it denotes; \<open>nan\<close> and the infinities are not represented. A dict is the
  association list of its items, read with \<open>map_of\<close>; the keys of a dict are
  distinct, the JSON decoder having resolved a name that the text repeats.
\<close>

datatype pyval =
    PNone
  | PBool bool
  | PInt int
  | PFloat rat
  | PStr string
  | PList "pyval list"
  | PDict "(string \<times> pyval) list"

text \<open>
  \<open>repr\<close> of a string, as CPython prints it: single quotes, unless the string holds a
  single quote and no double quote; the quote character and the backslash are escaped,
  tab, newline and carriage return are written \<open>\t\<close>, \<open>\n\<close>, \<open>\r\<close>, the other
  control characters as \<open>\xhh\<close>. Bytes above 0x7F are copied unchanged.
\<close>

definition hexdigit :: "nat \<Rightarrow> char" where
  "hexdigit n = ''0123456789abcdef'' ! (n mod 16)"

definition repr_char :: "char \<Rightarrow> char \<Rightarrow> string" where
  "repr_char q c =
     (if c = q \<or> c = CHR 0x5C then [CHR 0x5C, c]
      else if c = CHR 0x09 then [CHR 0x5C, CHR ''t'']
      else if c = CHR 0x0A then [CHR 0x5C, CHR ''n'']
      else if c = CHR 0x0D then [CHR 0x5C, CHR ''r'']
      else if (of_char c :: nat) < 32 \<or> c = CHR 0x7F
        then [CHR 0x5C, CHR ''x'', hexdigit (of_char c div 16), hexdigit (of_char c)]
      else [c])"

definition py_repr :: "string \<Rightarrow> string" where
  "py_repr s =
     (let q = (if CHR 0x27 \<in> set s \<and> CHR 0x22 \<notin> set s then CHR 0x22 else CHR 0x27)
      in q # concat (map (repr_char q) s) @ [q])"

text \<open>
  \<open>obj[key]\<close> with a string key. A dict raises \<open>KeyError(key)\<close> for a missing key, and
  \<open>str\<close> of a \<open>KeyError\<close> is the \<open>repr\<close> of the key; every other JSON value raises
  \<open>TypeError\<close>.
\<close>

definition not_subscriptable :: "string \<Rightarrow> exn" where
  "not_subscriptable tp = Exn TypeError (py_repr tp @ '' object is not subscriptable'')"

fun subscript :: "pyval \<Rightarrow> string \<Rightarrow> exn + pyval" where
  "subscript (PDict kvs) k =
     (case map_of kvs k of
        Some v \<Rightarrow> Inr v
      | None \<Rightarrow> Inl (Exn KeyError (py_repr k)))"
| "subscript (PList xs) k =
     Inl (Exn TypeError ''list indices must be integers or slices, not str'')"
| "subscript (PStr s) k =
     Inl (Exn TypeError (''string indices must be integers, not '' @ py_repr ''str''))"
| "subscript PNone k = Inl (not_subscriptable ''NoneType'')"
| "subscript (PBool b) k = Inl (not_subscriptable ''bool'')"
| "subscript (PInt i) k = Inl (not_subscriptable ''int'')"
| "subscript (PFloat x) k = Inl (not_subscriptable ''float'')"


section \<open>The prediction function (server/ml/predict.py)\<close>

text \<open>
  NumPy and the classifier are external libraries; what they compute is a parameter.
  \<open>'arr\<close> is the type of a NumPy array of features. \<open>np.array\<close> receives the nested
  list literal of the source and may raise; the two methods of the classifier receive
  the array and may raise. \<open>predict\<close> returns a one-dimensional array of class labels
  (NumPy scalars of integer, floating or boolean type), \<open>predict_proba\<close> a
  two-dimensional array of floats.
\<close>

datatype npscalar = NInt int | NFloat rat | NBool bool

record 'arr numpy =
  np_array :: "pyval list list \<Rightarrow> exn + 'arr"

record 'arr classifier =
  model_predict :: "'arr \<Rightarrow> exn + npscalar list"
  model_predict_proba :: "'arr \<Rightarrow> exn + rat list list"

text \<open>
  The module globals \<open>np\<close> and \<open>model\<close> that \<open>predict_churn\<close> reads.
\<close>

record 'arr globals =
  np :: "'arr numpy"
  model :: "'arr classifier"

text \<open>\<open>a[0]\<close> on a NumPy array.\<close>

definition index0 :: "'a list \<Rightarrow> exn + 'a" where
  "index0 xs =
     (case xs of
        [] \<Rightarrow> Inl (Exn IndexError ''index 0 is out of bounds for axis 0 with size 0'')
      | x # _ \<Rightarrow> Inr x)"

text \<open>\<open>int(x)\<close> of a NumPy scalar: a float is truncated towards zero.\<close>

fun py_int :: "npscalar \<Rightarrow> int" where
  "py_int (NInt i) = i"
| "py_int (NFloat x) = (if 0 \<le> x then \<lfloor>x\<rfloor> else \<lceil>x\<rceil>)"
| "py_int (NBool b) = (if b then 1 else 0)"

text \<open>
  The builtin \<open>max\<close> over an iterable: the first item is the candidate, and a later
  item replaces it when it compares greater.
\<close>

fun py_max :: "rat list \<Rightarrow> exn + rat" where
  "py_max [] = Inl (Exn ValueError ''max() iterable argument is empty'')"
| "py_max (x # xs) = Inr (foldl (\<lambda>best item. if best < item then item else best) x xs)"

text \<open>\<open>float(x)\<close> of a NumPy float is the same number as a Python float.\<close>

definition py_float :: "rat \<Rightarrow> rat" where
  "py_float x = x"

text \<open>
  \<open>round(x, ndigits)\<close> of a float. CPython rounds the exact value of \<open>x\<close> to
  \<open>ndigits\<close> decimal places, a tie going to the even digit, and returns the float
  nearest to that decimal number. The model returns the decimal number itself, which is
  what \<open>repr\<close> and the JSON encoder print for that float.
\<close>

definition round_half_even :: "rat \<Rightarrow> int" where
  "round_half_even x =
     (let f = \<lfloor>x\<rfloor>; d = x - of_int f
      in if d < 1 / 2 then f
         else if 1 / 2 < d then f + 1
         else if even f then f else f + 1)"

definition py_round :: "rat \<Rightarrow> nat \<Rightarrow> rat" where
  "py_round x ndigits = of_int (round_half_even (x * 10 ^ ndigits)) / 10 ^ ndigits"

text \<open>
  The nested list literal of lines 10 to 15: four subscripts, evaluated in this order,
  the first failing one raising.
\<close>

definition features_literal :: "pyval \<Rightarrow> exn + pyval list list" where
  "features_literal customer_data =
     bindE (subscript customer_data ''avg_order_value'') (\<lambda>a.
     bindE (subscript customer_data ''purchase_frequency'') (\<lambda>b.
     bindE (subscript customer_data ''days_since_last_purchase'') (\<lambda>c.
     bindE (subscript customer_data ''total_spent'') (\<lambda>d.
     Inr [[a, b, c, d]]))))"

definition predict_churn :: "'arr globals \<Rightarrow> pyval \<Rightarrow> exn + pyval" where
  "predict_churn g customer_data =
     bindE (features_literal customer_data) (\<lambda>rows.
     bindE (np_array (np g) rows) (\<lambda>features.
     bindE (model_predict (model g) features) (\<lambda>prediction.
     bindE (model_predict_proba (model g) features) (\<lambda>probability.
     bindE (index0 prediction) (\<lambda>label.
     bindE (index0 probability) (\<lambda>row.
     bindE (py_max row) (\<lambda>p.
     Inr (PDict [(''churn_risk'', PInt (py_int label)),
                 (''confidence'', PFloat (py_round (py_float p) 2))]))))))))"

text \<open>The sample of the test block, lines 26 to 31.\<close>

definition sample :: pyval where
  "sample = PDict [(''avg_order_value'', PInt 30),
                   (''purchase_frequency'', PInt 3),
                   (''days_since_last_purchase'', PInt 45),
                   (''total_spent'', PInt 150)]"

section \<open>Loading the module (server/ml/predict.py, lines 1 to 8)\<close>

text \<open>
  The statements at the top of the module run when it is imported. The environment of
  the process decides which modules can be imported, what is stored at a path, and
  what unpickling a file's bytes gives.
\<close>

datatype file_state = Absent | Denied | Directory | Regular string

record 'm world =
  importable :: "string \<Rightarrow> bool"
  files :: "string \<Rightarrow> file_state"
  unpickle :: "string \<Rightarrow> exn + 'm"

datatype 'm pyobj =
    ModuleObj string
  | FileObj string
  | Builtin string
  | Function string
  | Unpickled 'm

text \<open>The builtin functions of Python 3; a name that is not a global is looked up here.\<close>

definition builtin_names :: "string list" where
  "builtin_names =
     [''abs'', ''aiter'', ''all'', ''anext'', ''any'', ''ascii'', ''bin'', ''bool'',
      ''breakpoint'', ''bytearray'', ''bytes'', ''callable'', ''chr'', ''classmethod'',
      ''compile'', ''complex'', ''delattr'', ''dict'', ''dir'', ''divmod'', ''enumerate'',
      ''eval'', ''exec'', ''filter'', ''float'', ''format'', ''frozenset'', ''getattr'',
      ''globals'', ''hasattr'', ''hash'', ''help'', ''hex'', ''id'', ''input'', ''int'',
      ''isinstance'', ''issubclass'', ''iter'', ''len'', ''list'', ''locals'', ''map'',
      ''max'', ''memoryview'', ''min'', ''next'', ''object'', ''oct'', ''open'', ''ord'',
      ''pow'', ''print'', ''property'', ''range'', ''repr'', ''reversed'', ''round'',
      ''set'', ''setattr'', ''slice'', ''sorted'', ''staticmethod'', ''str'', ''sum'',
      ''super'', ''tuple'', ''type'', ''vars'', ''zip'', ''__import__'']"

definition load_name :: "(string \<rightharpoonup> 'm pyobj) \<Rightarrow> string \<Rightarrow> exn + 'm pyobj" where
  "load_name g n =
     (case g n of
        Some v \<Rightarrow> Inr v
      | None \<Rightarrow>
          if n \<in> set builtin_names then Inr (Builtin n)
          else Inl (Exn NameError (''name '' @ py_repr n @ '' is not defined'')))"

definition import_as ::
  "'m world \<Rightarrow> string \<Rightarrow> string \<Rightarrow> (string \<rightharpoonup> 'm pyobj) \<Rightarrow> exn + (string \<rightharpoonup> 'm pyobj)" where
  "import_as w name alias g =
     (if importable w name then Inr (g(alias \<mapsto> ModuleObj name))
      else Inl (Exn ModuleNotFoundError (''No module named '' @ py_repr name)))"

text \<open>\<open>open(path, 'rb')\<close>: the bytes of a regular file, or the \<open>OSError\<close> of the failure.\<close>

definition open_rb :: "'m world \<Rightarrow> string \<Rightarrow> exn + string" where
  "open_rb w path =
     (case files w path of
        Absent \<Rightarrow>
          Inl (Exn FileNotFoundError (''[Errno 2] No such file or directory: '' @ py_repr path))
      | Denied \<Rightarrow>
          Inl (Exn PermissionError (''[Errno 13] Permission denied: '' @ py_repr path))
      | Directory \<Rightarrow>
          Inl (Exn IsADirectoryError (''[Errno 21] Is a directory: '' @ py_repr path))
      | Regular bs \<Rightarrow> Inr bs)"

text \<open>
  The call \<open>p.load(f)\<close>, once \<open>p\<close> and \<open>f\<close> are evaluated: the \<open>pickle\<close> module
  unpickles the bytes of the file; another object has no such function.
\<close>

definition call_load :: "'m world \<Rightarrow> 'm pyobj \<Rightarrow> 'm pyobj \<Rightarrow> exn + 'm" where
  "call_load w p f =
     (if p = ModuleObj ''pickle'' then
        (case f of
           FileObj bs \<Rightarrow> unpickle w bs
         | _ \<Rightarrow> Inl (Exn TypeError ''file must have 'read' and 'readline' attributes''))
      else Inl (Exn AttributeError (''object has no attribute '' @ py_repr ''load'')))"

text \<open>
  Line 1 is a comment (\<open>#(import pickle\<close>), so the first statement is
  \<open>import numpy as np\<close>. The \<open>with\<close> statement opens the file and binds \<open>f\<close>; its
  body evaluates the name \<open>pickle\<close>, then the name \<open>f\<close>, then the call, and binds
  \<open>model\<close>. An exception in the body leaves the \<open>with\<close> statement and ends the import.
  The \<open>def\<close> of line 8 binds \<open>predict_churn\<close>. The result is the namespace of the
  module.
\<close>

definition predict_module :: "'m world \<Rightarrow> exn + (string \<rightharpoonup> 'm pyobj)" where
  "predict_module w =
     bindE (import_as w ''numpy'' ''np'' Map.empty) (\<lambda>g.
     bindE (load_name g ''open'') (\<lambda>_.
     bindE (open_rb w ''server/ml/churn_model.pkl'') (\<lambda>bs.
     bindE (load_name (g(''f'' \<mapsto> FileObj bs)) ''pickle'') (\<lambda>p.
     bindE (load_name (g(''f'' \<mapsto> FileObj bs)) ''f'') (\<lambda>f.
     bindE (call_load w p f) (\<lambda>m.
     Inr (g(''f'' \<mapsto> FileObj bs, ''model'' \<mapsto> Unpickled m,
            ''predict_churn'' \<mapsto> Function ''predict_churn''))))))))"

section \<open>The HTTP route (server/app.py)\<close>

text \<open>
  Flask parses the body; the result of \<open>request.get_json()\<close>, a value or an exception,
  is part of the request. \<open>jsonify\<close> builds a response with status 200 whose body is
  the JSON form of its argument; a view that returns \<open>(response, 400)\<close> sets the status.
\<close>

record flask_request =
  get_json :: "exn + pyval"

record response =
  status :: nat
  json :: pyval

definition jsonify :: "pyval \<Rightarrow> response" where
  "jsonify v = \<lparr>status = 200, json = v\<rparr>"

definition predict :: "'arr globals \<Rightarrow> flask_request \<Rightarrow> response" where
  "predict g request =
     (case bindE (get_json request) (\<lambda>data.
           bindE (predict_churn g data) (\<lambda>result.
           Inr (jsonify result))) of
        Inr resp \<Rightarrow> resp
      | Inl e \<Rightarrow> (jsonify (PDict [(''error'', PStr (str e))]))\<lparr>status := 400\<rparr>)"

section \<open>The training data (server/ml/train_churn_model.py)\<close>

text \<open>
  A data frame is the list of its columns, in the order of the dict literal it is built
  from. \<open>drop(name, axis=1)\<close> removes a column and \<open>frame[name]\<close> reads one; both
  raise \<open>KeyError\<close> for a name that is not a column.
\<close>

type_synonym frame = "(string \<times> int list) list"

definition data :: frame where
  "data = [(''avg_order_value'', [50, 20, 300, 10, 100, 85]),
           (''purchase_frequency'', [10, 2, 1, 0, 4, 5]),
           (''days_since_last_purchase'', [5, 60, 90, 120, 30, 15]),
           (''total_spent'', [500, 40, 300, 10, 400, 420]),
           (''churned'', [0, 1, 1, 1, 0, 0])]"

definition drop_column :: "frame \<Rightarrow> string \<Rightarrow> exn + frame" where
  "drop_column df name =
     (if name \<in> set (map fst df) then Inr (filter (\<lambda>col. fst col \<noteq> name) df)
      else Inl (Exn KeyError (py_repr (''['' @ py_repr name @ ''] not found in axis''))))"

definition get_column :: "frame \<Rightarrow> string \<Rightarrow> exn + int list" where
  "get_column df name =
     (case map_of df name of
        Some col \<Rightarrow> Inr col
      | None \<Rightarrow> Inl (Exn KeyError (py_repr name)))"

definition X :: "exn + frame" where
  "X = drop_column data ''churned''"

definition y :: "exn + int list" where
  "y = get_column data ''churned''"

text \<open>
  The script then fits \<open>RandomForestClassifier()\<close> on \<open>X\<close> and \<open>y\<close> and pickles it.
  The fitting algorithm belongs to scikit-learn and is not modelled. What the fitted
  classifier is known to do is its documented interface: its classes are the sorted
  distinct labels of \<open>y\<close>; a label it returns is one of its classes; a row of
  probabilities it returns has one entry for each class, no entry is negative, and the
  entries add up to 1. The entries are floats and their sum is a float sum, so the
  exact sum of the numbers they denote is 1 only up to rounding: it is required to lie
  within 0.005 of 1, half a unit of the last place that \<open>round(x, 2)\<close> keeps.
\<close>

definition classes :: "int list \<Rightarrow> int list" where
  "classes labels = sort (remdups labels)"

definition distribution :: "nat \<Rightarrow> rat list \<Rightarrow> bool" where
  "distribution n row \<longleftrightarrow>
     length row = n \<and> list_all (\<lambda>p. 0 \<le> p) row \<and> \<bar>sum_list row - 1\<bar> \<le> 1 / 200"

definition answers_as_classifier :: "int list \<Rightarrow> 'arr classifier \<Rightarrow> 'arr \<Rightarrow> bool" where
  "answers_as_classifier cls m a \<longleftrightarrow>
     (case model_predict m a of
        Inr labels \<Rightarrow> list_all (\<lambda>l. l \<in> set (map NInt cls)) labels
      | Inl e \<Rightarrow> True) \<and>
     (case model_predict_proba m a of
        Inr rows \<Rightarrow> list_all (distribution (length cls)) rows
      | Inl e \<Rightarrow> True)"

section \<open>Concrete environments\<close>

text \<open>
  A process environment in which NumPy is installed and the artifact file holds the
  bytes \<open>bs\<close>, which unpickle to the classifier \<open>m\<close>; and one in which the artifact
  file does not exist.
\<close>

definition artifact_world :: "string \<Rightarrow> 'm \<Rightarrow> 'm world" where
  "artifact_world bs m =
     \<lparr>importable = (\<lambda>name. True),
      files = (\<lambda>path. if path = ''server/ml/churn_model.pkl'' then Regular bs else Absent),
      unpickle = (\<lambda>b. if b = bs then Inr m
                       else Inl (Exn (OtherError ''UnpicklingError'') ''invalid load key''))\<rparr>"

definition no_artifact_world :: "unit world" where
  "no_artifact_world =
     \<lparr>importable = (\<lambda>name. True),
      files = (\<lambda>path. Absent),
      unpickle = (\<lambda>b. Inl (Exn (OtherError ''UnpicklingError'') ''invalid load key''))\<rparr>"

text \<open>
  A classifier that answers every query with the one label \<open>l\<close> and the one row of
  probabilities \<open>row\<close>, a NumPy whose arrays are the nested lists themselves, and the
  globals made of the two.
\<close>

definition constant_classifier :: "npscalar \<Rightarrow> rat list \<Rightarrow> 'arr classifier" where
  "constant_classifier l row =
     \<lparr>model_predict = (\<lambda>a. Inr [l]), model_predict_proba = (\<lambda>a. Inr [row])\<rparr>"

definition list_numpy :: "pyval list list numpy" where
  "list_numpy = \<lparr>np_array = Inr\<rparr>"

definition test_globals :: "pyval list list globals" where
  "test_globals =
     \<lparr>np = list_numpy, model = constant_classifier (NInt 1) [13 / 100, 87 / 100]\<rparr>"

text \<open>
  Globals whose classifier answers with the label 1 and the row of the two floats that
  Python writes \<open>0.33\<close> and \<open>0.67\<close>, given by the numbers they denote; their exact
  sum is not 1.
\<close>

definition float_globals :: "pyval list list globals" where
  "float_globals =
     \<lparr>np = list_numpy,
      model = constant_classifier (NInt 1)
        [5944751508129055 / 18014398509481984, 6034823500676465 / 9007199254740992]\<rparr>"


text \<open>
  A NumPy that raises \<open>e\<close> on the row of the sample and on no other argument, and a
  classifier whose two methods raise, or answer, on the array of that row and answer
  with something else on every other array.
\<close>

definition sample_row :: "pyval list list" where
  "sample_row = [[PInt 30, PInt 3, PInt 45, PInt 150]]"

definition picky_numpy :: "exn \<Rightarrow> pyval list list numpy" where
  "picky_numpy e = \<lparr>np_array = (\<lambda>rows. if rows = sample_row then Inl e else Inr rows)\<rparr>"

definition picky_classifier ::
  "exn + npscalar list \<Rightarrow> exn + rat list list \<Rightarrow> pyval list list classifier" where
  "picky_classifier labels rows =
     \<lparr>model_predict = (\<lambda>a. if a = sample_row then labels else Inr [NInt 0]),
      model_predict_proba = (\<lambda>a. if a = sample_row then rows else Inr [[1, 0]])\<rparr>"

text \<open>An exception for the libraries to raise.\<close>

definition np_failure :: exn where
  "np_failure = Exn ValueError ''could not convert''"

text \<open>The exception Flask raises for a body that is not JSON.\<close>

definition bad_json :: exn where
  "bad_json = Exn (OtherError ''BadRequest'')
     ''400 Bad Request: The browser (or proxy) sent a request that this server could not understand.''"

section \<open>Basic facts\<close>

lemma bindE_Inl [simp]: "bindE (Inl e) f = Inl e"
  by (simp add: bindE_def)

lemma bindE_Inr [simp]: "bindE (Inr x) f = f x"
  by (simp add: bindE_def)

lemma bindE_eq_Inr: "bindE m f = Inr r \<longleftrightarrow> (\<exists>x. m = Inr x \<and> f x = Inr r)"
  by (cases m) simp_all

lemma py_repr_nonempty: "py_repr s \<noteq> []"
  by (simp add: py_repr_def Let_def)

section \<open>Loading the module always fails\<close>

lemma load_name_pickle:
  "g ''pickle'' = None \<Longrightarrow>
   load_name g ''pickle'' = Inl (Exn NameError ''name 'pickle' is not defined'')"
  by (simp add: load_name_def builtin_names_def py_repr_def repr_char_def Let_def)

lemma load_name_open: "g ''open'' = None \<Longrightarrow> load_name g ''open'' = Inr (Builtin ''open'')"
  by (simp add: load_name_def builtin_names_def)

lemma predict_module_cases:
  "predict_module w =
     (if \<not> importable w ''numpy''
        then Inl (Exn ModuleNotFoundError (''No module named '' @ py_repr ''numpy''))
      else case open_rb w ''server/ml/churn_model.pkl'' of
             Inl e \<Rightarrow> Inl e
           | Inr bs \<Rightarrow> Inl (Exn NameError ''name 'pickle' is not defined''))"
  by (simp add: predict_module_def import_as_def load_name_open load_name_pickle
           split: sum.splits)

text \<open>
  C4. The claim: initialisation unpickles the artifact into a model handle, fails when
  the artifact is missing or corrupt, and succeeds when a valid artifact is present.
  The code does not succeed on a valid artifact: where NumPy is installed and the file
  holds bytes that unpickle to a classifier, the import of the module ends with the
  \<open>NameError\<close> for the name \<open>pickle\<close>, whose import is commented out on line 1.
\<close>

theorem predict_module_valid_artifact:
  "predict_module (artifact_world bs m) = Inl (Exn NameError ''name 'pickle' is not defined'')"
  by (simp add: predict_module_cases artifact_world_def open_rb_def)

text \<open>
  C5, as stated: initialisation raises a \<open>NameError\<close> in every execution, whether or
  not the artifact file exists. Where the file does not exist, \<open>open\<close> on line 5 raises
  \<open>FileNotFoundError\<close> before line 6 is reached, so the exception is not a
  \<open>NameError\<close>.
\<close>

theorem predict_module_missing_artifact:
  "predict_module no_artifact_world =
     Inl (Exn FileNotFoundError
       (''[Errno 2] No such file or directory: '' @ py_repr ''server/ml/churn_model.pkl''))
   \<and> exc_type (Exn FileNotFoundError
       (''[Errno 2] No such file or directory: '' @ py_repr ''server/ml/churn_model.pkl''))
     \<noteq> NameError"
  by (simp add: predict_module_cases no_artifact_world_def open_rb_def)

text \<open>
  C5, amended: initialisation fails in every execution. Where NumPy can be imported
  and the artifact is a regular file, whatever it holds, the failure is the
  \<open>NameError\<close> for \<open>pickle\<close>; where NumPy can be imported and the artifact file does
  not exist, it is the \<open>FileNotFoundError\<close> of \<open>open\<close>.
\<close>

theorem predict_module_always_fails:
  "(\<exists>e. predict_module w = Inl e) \<and>
   (importable w ''numpy'' \<longrightarrow>
      (\<forall>bs. files w ''server/ml/churn_model.pkl'' = Regular bs \<longrightarrow>
         predict_module w = Inl (Exn NameError ''name 'pickle' is not defined'')) \<and>
      (files w ''server/ml/churn_model.pkl'' = Absent \<longrightarrow>
         predict_module w =
           Inl (Exn FileNotFoundError
             (''[Errno 2] No such file or directory: '' @ py_repr ''server/ml/churn_model.pkl''))))"
  by (auto simp add: predict_module_cases open_rb_def split: sum.splits file_state.splits)

theorem predict_module_always_fails_witness:
  "importable (artifact_world ''pickled'' ()) ''numpy'' \<and>
   files (artifact_world ''pickled'' ()) ''server/ml/churn_model.pkl'' = Regular ''pickled'' \<and>
   predict_module (artifact_world ''pickled'' ()) =
     Inl (Exn NameError ''name 'pickle' is not defined'') \<and>
   importable no_artifact_world ''numpy'' \<and>
   files no_artifact_world ''server/ml/churn_model.pkl'' = Absent \<and>
   predict_module no_artifact_world =
     Inl (Exn FileNotFoundError
       (''[Errno 2] No such file or directory: '' @ py_repr ''server/ml/churn_model.pkl''))"
  using predict_module_always_fails [of "artifact_world ''pickled'' ()"]
        predict_module_always_fails [of no_artifact_world]
  by (simp add: artifact_world_def no_artifact_world_def)

section \<open>The prediction function\<close>

lemma foldl_keep_greater:
  "foldl (\<lambda>best item. if best < item then item else best) x xs = Max (insert x (set xs))"
proof (induction xs arbitrary: x)
  case Nil
  show ?case by simp
next
  case (Cons z zs)
  have "Max (insert (if x < z then z else x) (set zs)) = Max (insert x (insert z (set zs)))"
    by (cases "zs = []") (auto simp: max_def)
  with Cons show ?case by simp
qed

lemma py_max_Cons: "py_max (x # xs) = Inr (Max (set (x # xs)))"
  by (simp add: foldl_keep_greater)

lemma index0_Cons [simp]: "index0 (x # xs) = Inr x"
  by (simp add: index0_def)

lemma index0_eq_Inr: "index0 xs = Inr x \<longleftrightarrow> (\<exists>rest. xs = x # rest)"
  by (cases xs) (simp_all add: index0_def)

lemma py_max_eq_Inr: "py_max row = Inr m \<longleftrightarrow> (\<exists>p ps. row = p # ps \<and> m = Max (set (p # ps)))"
  by (cases row) (auto simp: foldl_keep_greater)

lemma features_literal_dict:
  assumes "map_of cd ''avg_order_value'' = Some a"
      and "map_of cd ''purchase_frequency'' = Some b"
      and "map_of cd ''days_since_last_purchase'' = Some c"
      and "map_of cd ''total_spent'' = Some d"
  shows "features_literal (PDict cd) = Inr [[a, b, c, d]]"
  using assms by (simp add: features_literal_def)

lemma predict_churn_after_features:
  assumes "features_literal customer_data = Inr rows"
      and "np_array (np g) rows = Inr features"
      and "model_predict (model g) features = Inr (label # labels)"
      and "model_predict_proba (model g) features = Inr ((p # ps) # prows)"
  shows "predict_churn g customer_data =
           Inr (PDict [(''churn_risk'', PInt (py_int label)),
                       (''confidence'', PFloat (py_round (Max (set (p # ps))) 2))])"
  using assms
  by (simp add: predict_churn_def py_max_Cons py_float_def del: py_max.simps)

lemma predict_churn_success:
  assumes "predict_churn g customer_data = Inr result"
  shows "\<exists>rows features label labels p ps prows.
           features_literal customer_data = Inr rows \<and>
           np_array (np g) rows = Inr features \<and>
           model_predict (model g) features = Inr (label # labels) \<and>
           model_predict_proba (model g) features = Inr ((p # ps) # prows) \<and>
           result = PDict [(''churn_risk'', PInt (py_int label)),
                           (''confidence'', PFloat (py_round (Max (set (p # ps))) 2))]"
  using assms unfolding predict_churn_def bindE_eq_Inr index0_eq_Inr py_max_eq_Inr py_float_def
  by (elim exE conjE) auto

lemma test_globals_sample:
  "predict_churn test_globals sample =
     Inr (PDict [(''churn_risk'', PInt 1), (''confidence'', PFloat (87 / 100))])"
  by (simp add: predict_churn_def features_literal_def sample_def test_globals_def
        list_numpy_def constant_classifier_def py_float_def py_round_def round_half_even_def)

lemma test_globals_empty_dict:
  "predict_churn test_globals (PDict []) = Inl (Exn KeyError (py_repr ''avg_order_value''))"
  by (simp add: predict_churn_def features_literal_def)

text \<open>
  C1. For an input mapping that holds the four fields, when \<open>np.array\<close> and the two
  methods of the model return for the single row built from them, \<open>predict_churn\<close>
  returns the dict whose \<open>churn_risk\<close> is the first predicted label cast to integer
  and whose \<open>confidence\<close> is the greatest probability of the first row, cast to float
  and rounded to 2 decimal places.
\<close>

theorem predict_churn_result:
  assumes "map_of cd ''avg_order_value'' = Some a"
      and "map_of cd ''purchase_frequency'' = Some b"
      and "map_of cd ''days_since_last_purchase'' = Some c"
      and "map_of cd ''total_spent'' = Some d"
      and "np_array (np g) [[a, b, c, d]] = Inr features"
      and "model_predict (model g) features = Inr (label # labels)"
      and "model_predict_proba (model g) features = Inr ((p # ps) # prows)"
  shows "predict_churn g (PDict cd) =
           Inr (PDict [(''churn_risk'', PInt (py_int label)),
                       (''confidence'', PFloat (py_round (Max (set (p # ps))) 2))])"
  using assms by (simp add: predict_churn_after_features features_literal_dict)


theorem predict_churn_result_witness:
  "predict_churn test_globals sample =
     Inr (PDict [(''churn_risk'', PInt 1), (''confidence'', PFloat (87 / 100))])"
proof -
  have "predict_churn test_globals
          (PDict [(''avg_order_value'', PInt 30), (''purchase_frequency'', PInt 3),
                  (''days_since_last_purchase'', PInt 45), (''total_spent'', PInt 150)]) =
        Inr (PDict [(''churn_risk'', PInt (py_int (NInt 1))),
                    (''confidence'', PFloat (py_round (Max (set [13 / 100, 87 / 100])) 2))])"
    by (rule predict_churn_result [where features = "[[PInt 30, PInt 3, PInt 45, PInt 150]]"
          and labels = "[]" and prows = "[]"])
       (simp_all add: test_globals_def list_numpy_def constant_classifier_def)
  then show ?thesis
    by (simp add: sample_def py_round_def round_half_even_def)
qed

section \<open>The order of the features\<close>

lemma X_columns:
  "X = Inr [(''avg_order_value'', [50, 20, 300, 10, 100, 85]),
            (''purchase_frequency'', [10, 2, 1, 0, 4, 5]),
            (''days_since_last_purchase'', [5, 60, 90, 120, 30, 15]),
            (''total_spent'', [500, 40, 300, 10, 400, 420])]"
  by (simp add: X_def drop_column_def data_def)

lemma y_labels: "y = Inr [0, 1, 1, 1, 0, 0]"
  by (simp add: y_def get_column_def data_def)

text \<open>
  C2. For an input mapping that holds the four fields with the values \<open>a\<close>, \<open>b\<close>,
  \<open>c\<close>, \<open>d\<close>, the columns of the training frame \<open>X\<close> are avg_order_value,
  purchase_frequency, days_since_last_purchase, total_spent, in this order, and the
  values of the input under these names, in this order, are the row \<open>[a, b, c, d]\<close>.
  \<open>predict_churn\<close> hands exactly this single row to \<open>np.array\<close> and the array it
  gets to both methods of the model: an exception of \<open>np.array\<close> on this row, of
  \<open>predict\<close> on the array, or of \<open>predict_proba\<close> on the array is the exception of
  \<open>predict_churn\<close>, and the answers of the model on the array make the result.
\<close>

theorem features_in_training_order:
  assumes "map_of cd ''avg_order_value'' = Some a"
      and "map_of cd ''purchase_frequency'' = Some b"
      and "map_of cd ''days_since_last_purchase'' = Some c"
      and "map_of cd ''total_spent'' = Some d"
  shows "(\<exists>frame. X = Inr frame \<and>
            map fst frame = [''avg_order_value'', ''purchase_frequency'',
                             ''days_since_last_purchase'', ''total_spent''] \<and>
            map (\<lambda>name. the (map_of cd name)) (map fst frame) = [a, b, c, d]) \<and>
         (\<forall>e. np_array (np g) [[a, b, c, d]] = Inl e \<longrightarrow>
            predict_churn g (PDict cd) = Inl e) \<and>
         (\<forall>features e.
            np_array (np g) [[a, b, c, d]] = Inr features \<longrightarrow>
            model_predict (model g) features = Inl e \<longrightarrow>
            predict_churn g (PDict cd) = Inl e) \<and>
         (\<forall>features prediction e.
            np_array (np g) [[a, b, c, d]] = Inr features \<longrightarrow>
            model_predict (model g) features = Inr prediction \<longrightarrow>
            model_predict_proba (model g) features = Inl e \<longrightarrow>
            predict_churn g (PDict cd) = Inl e) \<and>
         (\<forall>features label rest p ps prows.
            np_array (np g) [[a, b, c, d]] = Inr features \<longrightarrow>
            model_predict (model g) features = Inr (label # rest) \<longrightarrow>
            model_predict_proba (model g) features = Inr ((p # ps) # prows) \<longrightarrow>
            predict_churn g (PDict cd) =
              Inr (PDict [(''churn_risk'', PInt (py_int label)),
                          (''confidence'', PFloat (py_round (Max (set (p # ps))) 2))]))"
proof -
  have lit: "features_literal (PDict cd) = Inr [[a, b, c, d]]"
    using assms by (rule features_literal_dict)
  have cols: "\<exists>frame. X = Inr frame \<and>
            map fst frame = [''avg_order_value'', ''purchase_frequency'',
                             ''days_since_last_purchase'', ''total_spent''] \<and>
            map (\<lambda>name. the (map_of cd name)) (map fst frame) = [a, b, c, d]"
    using assms by (simp add: X_columns)
  have raise_np: "predict_churn g (PDict cd) = Inl e"
    if "np_array (np g) [[a, b, c, d]] = Inl e" for e
    using that by (simp add: predict_churn_def lit)
  have raise_predict: "predict_churn g (PDict cd) = Inl e"
    if "np_array (np g) [[a, b, c, d]] = Inr features"
       "model_predict (model g) features = Inl e" for features e
    using that by (simp add: predict_churn_def lit)
  have raise_proba: "predict_churn g (PDict cd) = Inl e"
    if "np_array (np g) [[a, b, c, d]] = Inr features"
       "model_predict (model g) features = Inr prediction"
       "model_predict_proba (model g) features = Inl e" for features prediction e
    using that by (simp add: predict_churn_def lit)
  have ok: "predict_churn g (PDict cd) =
              Inr (PDict [(''churn_risk'', PInt (py_int label)),
                          (''confidence'', PFloat (py_round (Max (set (p # ps))) 2))])"
    if "np_array (np g) [[a, b, c, d]] = Inr features"
       "model_predict (model g) features = Inr (label # rest)"
       "model_predict_proba (model g) features = Inr ((p # ps) # prows)"
    for features label rest p ps prows
    using lit that by (rule predict_churn_after_features)
  from cols raise_np raise_predict raise_proba ok show ?thesis by blast
qed

theorem features_in_training_order_witness:
  "predict_churn \<lparr>np = picky_numpy np_failure, model = model test_globals\<rparr> sample =
     Inl np_failure \<and>
   predict_churn
     \<lparr>np = list_numpy, model = picky_classifier (Inl np_failure) (Inr [[1, 0]])\<rparr> sample =
     Inl np_failure \<and>
   predict_churn
     \<lparr>np = list_numpy, model = picky_classifier (Inr [NInt 1]) (Inl np_failure)\<rparr> sample =
     Inl np_failure \<and>
   predict_churn
     \<lparr>np = list_numpy,
      model = picky_classifier (Inr [NInt 1]) (Inr [[13 / 100, 87 / 100]])\<rparr> sample =
     Inr (PDict [(''churn_risk'', PInt 1), (''confidence'', PFloat (87 / 100))])"
proof -
  let ?cd = "[(''avg_order_value'', PInt 30), (''purchase_frequency'', PInt 3),
              (''days_since_last_purchase'', PInt 45), (''total_spent'', PInt 150)]"
  have keys: "map_of ?cd ''avg_order_value'' = Some (PInt 30)"
             "map_of ?cd ''purchase_frequency'' = Some (PInt 3)"
             "map_of ?cd ''days_since_last_purchase'' = Some (PInt 45)"
             "map_of ?cd ''total_spent'' = Some (PInt 150)"
    by simp_all
  note inst = features_in_training_order [OF keys]
  from inst [of "\<lparr>np = picky_numpy np_failure, model = model test_globals\<rparr>"]
  have one: "predict_churn \<lparr>np = picky_numpy np_failure, model = model test_globals\<rparr>
               (PDict ?cd) = Inl np_failure"
    by (simp add: picky_numpy_def sample_row_def)
  from inst [of "\<lparr>np = list_numpy, model = picky_classifier (Inl np_failure) (Inr [[1, 0]])\<rparr>"]
  have two: "predict_churn
      \<lparr>np = list_numpy, model = picky_classifier (Inl np_failure) (Inr [[1, 0]])\<rparr> (PDict ?cd) =
      Inl np_failure"
    by (simp add: list_numpy_def picky_classifier_def sample_row_def)
  from inst [of "\<lparr>np = list_numpy, model = picky_classifier (Inr [NInt 1]) (Inl np_failure)\<rparr>"]
  have three: "predict_churn
      \<lparr>np = list_numpy, model = picky_classifier (Inr [NInt 1]) (Inl np_failure)\<rparr> (PDict ?cd) =
      Inl np_failure"
    by (simp add: list_numpy_def picky_classifier_def sample_row_def)
  from inst [of "\<lparr>np = list_numpy,
      model = picky_classifier (Inr [NInt 1]) (Inr [[13 / 100, 87 / 100]])\<rparr>",
      THEN conjunct2, THEN conjunct2, THEN conjunct2, THEN conjunct2, rule_format,
      where features = sample_row and label = "NInt 1" and rest = "[]"
        and p = "13 / 100" and ps = "[87 / 100]" and prows = "[]"]
  have four: "predict_churn
      \<lparr>np = list_numpy,
       model = picky_classifier (Inr [NInt 1]) (Inr [[13 / 100, 87 / 100]])\<rparr> (PDict ?cd) =
      Inr (PDict [(''churn_risk'', PInt 1), (''confidence'', PFloat (87 / 100))])"
    by (simp add: list_numpy_def picky_classifier_def sample_row_def py_round_def
          round_half_even_def)
  from one two three four show ?thesis by (simp add: sample_def)
qed

section \<open>The route\<close>

lemma predict_churn_shape:
  "predict_churn g customer_data = Inr result \<Longrightarrow>
   \<exists>c q. result = PDict [(''churn_risk'', PInt c), (''confidence'', PFloat q)]"
  by (drule predict_churn_success) blast

lemma predict_get_json_error:
  "get_json request = Inl e \<Longrightarrow>
   predict g request = \<lparr>status = 400, json = PDict [(''error'', PStr (str e))]\<rparr>"
  by (simp add: predict_def jsonify_def)

lemma predict_churn_error:
  "get_json request = Inr payload \<Longrightarrow> predict_churn g payload = Inl e \<Longrightarrow>
   predict g request = \<lparr>status = 400, json = PDict [(''error'', PStr (str e))]\<rparr>"
  by (simp add: predict_def jsonify_def)

lemma predict_ok:
  "get_json request = Inr payload \<Longrightarrow> predict_churn g payload = Inr result \<Longrightarrow>
   predict g request = \<lparr>status = 200, json = result\<rparr>"
  by (simp add: predict_def jsonify_def)

text \<open>
  C3. When parsing and prediction succeed, the response has status 200 and its body is
  the prediction, a JSON object with the fields \<open>churn_risk\<close> and \<open>confidence\<close>.
  When parsing or prediction raises \<open>e\<close>, the response has status 400 and the body
  \<open>{"error": str(e)}\<close>. The status is 400 exactly when an exception was raised, and
  it is never anything but 200 or 400.
\<close>

theorem predict_responses:
  "(\<forall>payload result.
      get_json request = Inr payload \<longrightarrow> predict_churn g payload = Inr result \<longrightarrow>
      predict g request = \<lparr>status = 200, json = result\<rparr> \<and>
      (\<exists>c q. result = PDict [(''churn_risk'', PInt c), (''confidence'', PFloat q)])) \<and>
   (\<forall>e. get_json request = Inl e \<longrightarrow>
      predict g request = \<lparr>status = 400, json = PDict [(''error'', PStr (str e))]\<rparr>) \<and>
   (\<forall>payload e.
      get_json request = Inr payload \<longrightarrow> predict_churn g payload = Inl e \<longrightarrow>
      predict g request = \<lparr>status = 400, json = PDict [(''error'', PStr (str e))]\<rparr>) \<and>
   (status (predict g request) = 400 \<longleftrightarrow>
      (\<exists>e. get_json request = Inl e) \<or>
      (\<exists>payload e. get_json request = Inr payload \<and> predict_churn g payload = Inl e)) \<and>
   (status (predict g request) = 200 \<or> status (predict g request) = 400)"
proof (intro conjI allI impI)
  fix payload result
  assume "get_json request = Inr payload" "predict_churn g payload = Inr result"
  then show "predict g request = \<lparr>status = 200, json = result\<rparr>"
    and "\<exists>c q. result = PDict [(''churn_risk'', PInt c), (''confidence'', PFloat q)]"
    by (simp_all add: predict_ok predict_churn_shape)
next
  fix e assume "get_json request = Inl e"
  then show "predict g request = \<lparr>status = 400, json = PDict [(''error'', PStr (str e))]\<rparr>"
    by (rule predict_get_json_error)
next
  fix payload e assume "get_json request = Inr payload" "predict_churn g payload = Inl e"
  then show "predict g request = \<lparr>status = 400, json = PDict [(''error'', PStr (str e))]\<rparr>"
    by (rule predict_churn_error)
next
  show "status (predict g request) = 400 \<longleftrightarrow>
      (\<exists>e. get_json request = Inl e) \<or>
      (\<exists>payload e. get_json request = Inr payload \<and> predict_churn g payload = Inl e)"
    by (cases "get_json request"; cases "predict_churn g (projr (get_json request))")
       (simp_all add: predict_def jsonify_def)
next
  show "status (predict g request) = 200 \<or> status (predict g request) = 400"
    by (cases "get_json request"; cases "predict_churn g (projr (get_json request))")
       (simp_all add: predict_def jsonify_def)
qed

theorem predict_responses_witness:
  "predict test_globals \<lparr>get_json = Inr sample\<rparr> =
     \<lparr>status = 200,
      json = PDict [(''churn_risk'', PInt 1), (''confidence'', PFloat (87 / 100))]\<rparr> \<and>
   predict test_globals \<lparr>get_json = Inl bad_json\<rparr> =
     \<lparr>status = 400, json = PDict [(''error'', PStr (str bad_json))]\<rparr> \<and>
   predict test_globals \<lparr>get_json = Inr (PDict [])\<rparr> =
     \<lparr>status = 400, json = PDict [(''error'', PStr (py_repr ''avg_order_value''))]\<rparr>"
  using predict_responses [of "\<lparr>get_json = Inr sample\<rparr>" test_globals]
        predict_responses [of "\<lparr>get_json = Inl bad_json\<rparr>" test_globals]
        predict_responses [of "\<lparr>get_json = Inr (PDict [])\<rparr>" test_globals]
  by (simp add: test_globals_sample test_globals_empty_dict)

lemma features_literal_missing:
  assumes "map_of cd ''avg_order_value'' = None \<or> map_of cd ''purchase_frequency'' = None \<or>
           map_of cd ''days_since_last_purchase'' = None \<or> map_of cd ''total_spent'' = None"
  shows "\<exists>k. k \<in> set [''avg_order_value'', ''purchase_frequency'',
                       ''days_since_last_purchase'', ''total_spent''] \<and>
             map_of cd k = None \<and>
             features_literal (PDict cd) = Inl (Exn KeyError (py_repr k))"
proof (cases "map_of cd ''avg_order_value''")
  case None
  then show ?thesis
    by (intro exI [of _ "''avg_order_value''"]) (simp add: features_literal_def)
next
  case a: (Some a)
  show ?thesis
  proof (cases "map_of cd ''purchase_frequency''")
    case None
    with a show ?thesis
      by (intro exI [of _ "''purchase_frequency''"]) (simp add: features_literal_def)
  next
    case b: (Some b)
    show ?thesis
    proof (cases "map_of cd ''days_since_last_purchase''")
      case None
      with a b show ?thesis
        by (intro exI [of _ "''days_since_last_purchase''"]) (simp add: features_literal_def)
    next
      case c: (Some c)
      with a b assms have "map_of cd ''total_spent'' = None" by simp
      with a b c show ?thesis
        by (intro exI [of _ "''total_spent''"]) (simp add: features_literal_def)
    qed
  qed
qed

text \<open>
  C6. For a request whose body is a JSON object that lacks at least one of the four
  fields, the response has status 400 and its error string is not empty: it is the
  \<open>repr\<close> of one of the missing keys, the \<open>str\<close> of the \<open>KeyError\<close> that the
  subscript raised.
\<close>

theorem missing_field_is_400:
  assumes "get_json request = Inr (PDict cd)"
      and "map_of cd ''avg_order_value'' = None \<or> map_of cd ''purchase_frequency'' = None \<or>
           map_of cd ''days_since_last_purchase'' = None \<or> map_of cd ''total_spent'' = None"
  shows "\<exists>k msg. k \<in> set [''avg_order_value'', ''purchase_frequency'',
                           ''days_since_last_purchase'', ''total_spent''] \<and>
                 map_of cd k = None \<and> msg = py_repr k \<and> msg \<noteq> [] \<and>
                 predict g request =
                   \<lparr>status = 400, json = PDict [(''error'', PStr msg)]\<rparr>"
proof -
  from features_literal_missing [OF assms(2)] obtain k where
    k: "k \<in> set [''avg_order_value'', ''purchase_frequency'',
                  ''days_since_last_purchase'', ''total_spent'']"
       "map_of cd k = None"
       "features_literal (PDict cd) = Inl (Exn KeyError (py_repr k))"
    by blast
  from k(3) have "predict_churn g (PDict cd) = Inl (Exn KeyError (py_repr k))"
    by (simp add: predict_churn_def)
  with assms(1) have "predict g request =
      \<lparr>status = 400, json = PDict [(''error'', PStr (py_repr k))]\<rparr>"
    by (simp add: predict_churn_error)
  with k(1,2) show ?thesis
    using py_repr_nonempty [of k] by blast
qed

theorem missing_field_is_400_witness:
  "\<exists>msg. msg \<noteq> [] \<and>
     predict test_globals \<lparr>get_json = Inr (PDict [(''avg_order_value'', PInt 30)])\<rparr> =
       \<lparr>status = 400, json = PDict [(''error'', PStr msg)]\<rparr>"
  using missing_field_is_400 [of "\<lparr>get_json = Inr (PDict [(''avg_order_value'', PInt 30)])\<rparr>"
          "[(''avg_order_value'', PInt 30)]" test_globals]
  by auto

section \<open>The range of the prediction\<close>

lemma round_half_even_floor:
  "\<lfloor>x\<rfloor> \<le> round_half_even x \<and> round_half_even x \<le> \<lfloor>x\<rfloor> + 1"
  by (simp add: round_half_even_def Let_def)

lemma round_half_even_ge_iff:
  assumes "even k"
  shows "k \<le> round_half_even x \<longleftrightarrow> of_int k - 1 / 2 \<le> x"
proof -
  define f where "f = \<lfloor>x\<rfloor>"
  define d where "d = x - of_int f"
  have x: "x = of_int f + d" by (simp add: d_def)
  have d: "0 \<le> d" "d < 1" by (simp_all add: d_def f_def) linarith
  have r: "round_half_even x =
             (if d < 1 / 2 then f else if 1 / 2 < d then f + 1 else if even f then f else f + 1)"
    by (simp add: round_half_even_def Let_def f_def d_def)
  have int_le: "of_int k - 1 / 2 \<le> (of_int f :: rat) + d \<longleftrightarrow> k \<le> f" if "d < 1 / 2"
  proof
    assume "of_int k - 1 / 2 \<le> (of_int f :: rat) + d"
    with that have "(of_int k :: rat) < of_int f + 1" by linarith
    then have "(of_int k :: rat) < of_int (f + 1)" by simp
    then have "k < f + 1" by (simp only: of_int_less_iff)
    then show "k \<le> f" by simp
  next
    assume "k \<le> f"
    then have "(of_int k :: rat) \<le> of_int f" by simp
    with d(1) show "of_int k - 1 / 2 \<le> (of_int f :: rat) + d" by linarith
  qed
  have int_le1: "of_int k - 1 / 2 \<le> (of_int f :: rat) + d \<longleftrightarrow> k \<le> f + 1" if "1 / 2 \<le> d"
  proof
    assume "of_int k - 1 / 2 \<le> (of_int f :: rat) + d"
    with d(2) have "(of_int k :: rat) < of_int f + 2" by linarith
    then have "(of_int k :: rat) < of_int (f + 2)" by simp
    then have "k < f + 2" by (simp only: of_int_less_iff)
    then show "k \<le> f + 1" by simp
  next
    assume "k \<le> f + 1"
    then have "(of_int k :: rat) \<le> of_int (f + 1)" by (simp only: of_int_le_iff)
    then have "(of_int k :: rat) \<le> of_int f + 1" by simp
    with that show "of_int k - 1 / 2 \<le> (of_int f :: rat) + d" by linarith
  qed
  have rhs: "of_int k - 1 / 2 \<le> x \<longleftrightarrow> of_int k - 1 / 2 \<le> (of_int f :: rat) + d"
    by (simp add: d_def)
  show ?thesis
    unfolding r rhs
  proof (cases "d < 1 / 2")
    case True
    then show "k \<le> (if d < 1 / 2 then f else if 1 / 2 < d then f + 1
                      else if even f then f else f + 1) \<longleftrightarrow>
               of_int k - 1 / 2 \<le> (of_int f :: rat) + d"
      by (simp add: int_le)
  next
    case False
    then have half: "1 / 2 \<le> d" by simp
    have even_case: "k \<le> f + 1 \<longleftrightarrow> k \<le> f" if "even f"
      using assms that by presburger
    from False show "k \<le> (if d < 1 / 2 then f else if 1 / 2 < d then f + 1
                      else if even f then f else f + 1) \<longleftrightarrow>
               of_int k - 1 / 2 \<le> (of_int f :: rat) + d"
      by (simp add: int_le1 [OF half] even_case)
  qed
qed


lemma round_half_even_le_iff:
  assumes "even k"
  shows "round_half_even x \<le> k \<longleftrightarrow> x \<le> of_int k + 1 / 2"
proof -
  define f where "f = \<lfloor>x\<rfloor>"
  define d where "d = x - of_int f"
  have d: "0 \<le> d" "d < 1" by (simp_all add: d_def f_def) linarith
  have r: "round_half_even x =
             (if d < 1 / 2 then f else if 1 / 2 < d then f + 1 else if even f then f else f + 1)"
    by (simp add: round_half_even_def Let_def f_def d_def)
  have low: "(of_int f :: rat) + d \<le> of_int k + 1 / 2 \<longleftrightarrow> f \<le> k" if "d \<le> 1 / 2"
  proof
    assume "(of_int f :: rat) + d \<le> of_int k + 1 / 2"
    with d(1) have "(of_int f :: rat) < of_int k + 1" by linarith
    then have "(of_int f :: rat) < of_int (k + 1)" by simp
    then have "f < k + 1" by (simp only: of_int_less_iff)
    then show "f \<le> k" by simp
  next
    assume "f \<le> k"
    then have "(of_int f :: rat) \<le> of_int k" by simp
    with that show "(of_int f :: rat) + d \<le> of_int k + 1 / 2" by linarith
  qed
  have high: "(of_int f :: rat) + d \<le> of_int k + 1 / 2 \<longleftrightarrow> f + 1 \<le> k" if "1 / 2 < d"
  proof
    assume "(of_int f :: rat) + d \<le> of_int k + 1 / 2"
    with that have "(of_int f :: rat) < of_int k" by linarith
    then have "f < k" by (simp only: of_int_less_iff)
    then show "f + 1 \<le> k" by simp
  next
    assume "f + 1 \<le> k"
    then have "(of_int (f + 1) :: rat) \<le> of_int k" by (simp only: of_int_le_iff)
    then have "(of_int f :: rat) + 1 \<le> of_int k" by simp
    with d(2) show "(of_int f :: rat) + d \<le> of_int k + 1 / 2" by linarith
  qed
  have rhs: "x \<le> of_int k + 1 / 2 \<longleftrightarrow> (of_int f :: rat) + d \<le> of_int k + 1 / 2"
    by (simp add: d_def)
  show ?thesis
    unfolding r rhs
  proof (cases "1 / 2 < d")
    case True
    then show "(if d < 1 / 2 then f else if 1 / 2 < d then f + 1
                else if even f then f else f + 1) \<le> k \<longleftrightarrow>
               (of_int f :: rat) + d \<le> of_int k + 1 / 2"
      by (simp add: high)
  next
    case False
    then have half: "d \<le> 1 / 2" by simp
    have odd_case: "f + 1 \<le> k \<longleftrightarrow> f \<le> k" if "odd f"
      using assms that by presburger
    from False show "(if d < 1 / 2 then f else if 1 / 2 < d then f + 1
                else if even f then f else f + 1) \<le> k \<longleftrightarrow>
               (of_int f :: rat) + d \<le> of_int k + 1 / 2"
      by (simp add: low [OF half] odd_case)
  qed
qed


lemma py_round2_le_1_iff: "py_round x 2 \<le> 1 \<longleftrightarrow> x \<le> 201 / 200"
proof -
  have "py_round x 2 \<le> 1 \<longleftrightarrow> round_half_even (x * 10 ^ 2) \<le> 100"
    by (simp add: py_round_def)
  also have "\<dots> \<longleftrightarrow> x * 10 ^ 2 \<le> of_int 100 + 1 / 2"
    by (rule round_half_even_le_iff) simp
  also have "\<dots> \<longleftrightarrow> x \<le> 201 / 200" by (simp add: mult.commute)
  finally show ?thesis .
qed

lemma py_round2_ge_half_iff: "1 / 2 \<le> py_round x 2 \<longleftrightarrow> 99 / 200 \<le> x"
proof -
  have "1 / 2 \<le> py_round x 2 \<longleftrightarrow> 50 \<le> round_half_even (x * 10 ^ 2)"
    by (simp add: py_round_def pos_le_divide_eq)
  also have "\<dots> \<longleftrightarrow> of_int 50 - 1 / 2 \<le> x * 10 ^ 2"
    by (rule round_half_even_ge_iff) simp
  also have "\<dots> \<longleftrightarrow> 99 / 200 \<le> x" by (simp add: mult.commute)
  finally show ?thesis .
qed




lemma classes_y: "y = Inr labels \<Longrightarrow> classes labels = [0, 1]"
  by (auto simp add: y_def get_column_def data_def classes_def)

lemma distribution_two_max:
  assumes "distribution 2 (p # ps)"
  shows "99 / 200 \<le> Max (set (p # ps)) \<and> Max (set (p # ps)) \<le> 201 / 200"
proof -
  from assms obtain q where ps: "ps = [q]"
    by (cases ps) (auto simp: distribution_def)
  with assms have "0 \<le> p" "0 \<le> q" "\<bar>p + q - 1\<bar> \<le> 1 / 200"
    by (simp_all add: distribution_def)
  then have "99 / 200 \<le> max p q \<and> max p q \<le> 201 / 200"
    by linarith
  with ps show ?thesis by simp
qed

lemma py_round_float_67: "py_round (6034823500676465 / 9007199254740992) 2 = 67 / 100"
  by code_simp

lemma float_globals_sample:
  "predict_churn float_globals sample =
     Inr (PDict [(''churn_risk'', PInt 1), (''confidence'', PFloat (67 / 100))])"
  by (simp add: predict_churn_def features_literal_def sample_def float_globals_def
        list_numpy_def constant_classifier_def py_float_def py_round_float_67)

lemma float_globals_classifier: "answers_as_classifier [0, 1] (model float_globals) a"
  by (simp add: answers_as_classifier_def float_globals_def constant_classifier_def
        distribution_def)




text \<open>
  C9. For the sample of the test block and a model that answers as a classifier fitted
  on the training labels \<open>y\<close>, with a label among its two classes and a row of two
  probabilities that add up to 1 (up to the rounding of the float sum),
  \<open>predict_churn\<close> returns a \<open>churn_risk\<close> that is 0 or 1 and a \<open>confidence\<close>
  between 0.5 and 1.
\<close>

theorem sample_prediction_range:
  assumes "y = Inr labels"
      and "np_array (np g) [[PInt 30, PInt 3, PInt 45, PInt 150]] = Inr a"
      and "model_predict (model g) a = Inr (label # rest)"
      and "model_predict_proba (model g) a = Inr (row # prows)"
      and "answers_as_classifier (classes labels) (model g) a"
  shows "\<exists>c q. predict_churn g sample =
                 Inr (PDict [(''churn_risk'', PInt c), (''confidence'', PFloat q)]) \<and>
               (c = 0 \<or> c = 1) \<and> 1 / 2 \<le> q \<and> q \<le> 1"
proof -
  from assms(5) have cls: "answers_as_classifier [0, 1] (model g) a"
    by (simp add: classes_y [OF assms(1)])
  from cls assms(4) have dist: "distribution 2 row"
    by (simp add: answers_as_classifier_def numeral_2_eq_2)
  then obtain p ps where row: "row = p # ps"
    by (cases row) (auto simp: distribution_def)
  from cls assms(3) have "label = NInt 0 \<or> label = NInt 1"
    by (simp add: answers_as_classifier_def)
  then have c: "py_int label = 0 \<or> py_int label = 1" by auto
  have feats: "features_literal sample = Inr [[PInt 30, PInt 3, PInt 45, PInt 150]]"
    by (simp add: sample_def features_literal_def)
  from feats assms(2) assms(3) assms(4) [unfolded row]
  have res: "predict_churn g sample =
      Inr (PDict [(''churn_risk'', PInt (py_int label)),
                  (''confidence'', PFloat (py_round (Max (set (p # ps))) 2))])"
    by (rule predict_churn_after_features)
  from dist row have bounds:
    "99 / 200 \<le> Max (set (p # ps)) \<and> Max (set (p # ps)) \<le> 201 / 200"
    by (simp only: distribution_two_max)
  then have lo: "1 / 2 \<le> py_round (Max (set (p # ps))) 2"
    by (simp only: py_round2_ge_half_iff)
  from bounds have hi: "py_round (Max (set (p # ps))) 2 \<le> 1"
    by (simp only: py_round2_le_1_iff)
  from res c lo hi show ?thesis by blast
qed

theorem sample_prediction_range_witness:
  "predict_churn float_globals sample =
     Inr (PDict [(''churn_risk'', PInt 1), (''confidence'', PFloat (67 / 100))]) \<and>
   (1 / 2 :: rat) \<le> 67 / 100 \<and> (67 / 100 :: rat) \<le> 1"
proof -
  have "\<exists>c q. predict_churn float_globals sample =
                 Inr (PDict [(''churn_risk'', PInt c), (''confidence'', PFloat q)]) \<and>
               (c = 0 \<or> c = 1) \<and> 1 / 2 \<le> q \<and> q \<le> 1"
  proof (rule sample_prediction_range)
    show "y = Inr [0, 1, 1, 1, 0, 0]" by (rule y_labels)
    show "np_array (np float_globals) [[PInt 30, PInt 3, PInt 45, PInt 150]] =
            Inr [[PInt 30, PInt 3, PInt 45, PInt 150]]"
      by (simp add: float_globals_def list_numpy_def)
    show "model_predict (model float_globals) [[PInt 30, PInt 3, PInt 45, PInt 150]] =
            Inr (NInt 1 # [])"
      by (simp add: float_globals_def constant_classifier_def)
    show "model_predict_proba (model float_globals) [[PInt 30, PInt 3, PInt 45, PInt 150]] =
            Inr ([5944751508129055 / 18014398509481984,
                  6034823500676465 / 9007199254740992] # [])"
      by (simp add: float_globals_def constant_classifier_def)
    show "answers_as_classifier (classes [0, 1, 1, 1, 0, 0]) (model float_globals)
            [[PInt 30, PInt 3, PInt 45, PInt 150]]"
      by (simp add: classes_y [OF y_labels] float_globals_classifier)
  qed
  then show ?thesis by (simp add: float_globals_sample)
qed

end
